theory Spec2Isabelle
  imports Complex_Main
begin

section \<open>The dual-state morphing scene: store, layouts and per-frame drivers\<close>

text \<open>
  The scene morphs a point cloud (the foliage) and four instanced meshes (the ornaments)
  between a scattered cloud and a cone-shaped tree. JavaScript numbers and GLSL floats
  are modelled as real numbers: the development is about the arithmetic the code writes
  down, not about rounding. The calls of \<^verbatim>\<open>Math.random()\<close> are parameters of the
  generators, each ranging over the half-open unit interval.
\<close>

subsection \<open>types.ts and store.ts\<close>

datatype TreeState = SCATTERED | TREE_SHAPE

record AppState =
  treeState :: TreeState
  isMorphing :: bool

definition useStore :: AppState where
  "useStore = \<lparr>treeState = SCATTERED, isMorphing = False\<rparr>"

definition toggleState :: "AppState \<Rightarrow> AppState" where
  "toggleState state =
     state\<lparr>treeState := (if treeState state = TREE_SHAPE then SCATTERED else TREE_SHAPE),
           isMorphing := True\<rparr>"

definition setMorphing :: "bool \<Rightarrow> AppState \<Rightarrow> AppState" where
  "setMorphing b state = state\<lparr>isMorphing := b\<rparr>"

subsection \<open>Library functions the components call\<close>

type_synonym vec3 = "real \<times> real \<times> real"

definition vx :: "vec3 \<Rightarrow> real" where "vx v = fst v"
definition vy :: "vec3 \<Rightarrow> real" where "vy v = fst (snd v)"
definition vz :: "vec3 \<Rightarrow> real" where "vz v = snd (snd v)"

text \<open>Euclidean distance of a point from the origin, and from the vertical (y) axis.\<close>

definition distance_origin :: "vec3 \<Rightarrow> real" where
  "distance_origin v = sqrt ((vx v)\<^sup>2 + (vy v)\<^sup>2 + (vz v)\<^sup>2)"

definition distance_axis :: "vec3 \<Rightarrow> real" where
  "distance_axis v = sqrt ((vx v)\<^sup>2 + (vz v)\<^sup>2)"

text \<open>\<^verbatim>\<open>THREE.MathUtils.lerp(x, y, t)\<close> of three.js is \<^verbatim>\<open>(1 - t) * x + t * y\<close>.\<close>

definition lerp :: "real \<Rightarrow> real \<Rightarrow> real \<Rightarrow> real" where
  "lerp x y t = (1 - t) * x + t * y"

text \<open>GLSL's \<^verbatim>\<open>mix(x, y, a)\<close> is \<^verbatim>\<open>x * (1 - a) + y * a\<close>, component-wise on vectors.\<close>

definition mix :: "vec3 \<Rightarrow> vec3 \<Rightarrow> real \<Rightarrow> vec3" where
  "mix a b t = (vx a * (1 - t) + vx b * t, vy a * (1 - t) + vy b * t, vz a * (1 - t) + vz b * t)"

text \<open>\<^verbatim>\<open>Array.prototype.forEach\<close>: the callback receives the element and its index.\<close>

fun forEach :: "(nat \<Rightarrow> 'a \<Rightarrow> 's \<Rightarrow> 's) \<Rightarrow> nat \<Rightarrow> 'a list \<Rightarrow> 's \<Rightarrow> 's" where
  "forEach f i [] s = s"
| "forEach f i (d # ds) s = forEach f (Suc i) ds (f i d s)"

subsection \<open>Foliage: layout generation\<close>

text \<open>
  One iteration of the generation loop calls \<^verbatim>\<open>Math.random()\<close> six times, in this
  order: scatter radius, scatter azimuth, scatter polar angle, normalised height,
  radius jitter, and the per-particle random attribute.
\<close>

record foliage_randoms =
  u_rScatter :: real
  u_thetaScatter :: real
  u_phiScatter :: real
  u_hNorm :: real
  u_rOffset :: real
  u_random :: real

definition unit_interval :: "real \<Rightarrow> bool" where
  "unit_interval u \<longleftrightarrow> 0 \<le> u \<and> u < 1"

definition foliage_randoms_ok :: "foliage_randoms \<Rightarrow> bool" where
  "foliage_randoms_ok r \<longleftrightarrow>
     unit_interval (u_rScatter r) \<and> unit_interval (u_thetaScatter r) \<and>
     unit_interval (u_phiScatter r) \<and> unit_interval (u_hNorm r) \<and>
     unit_interval (u_rOffset r) \<and> unit_interval (u_random r)"

record particle =
  aScatterPos :: vec3
  aTreePos :: vec3
  aRandom :: real

definition foliage_rScatter :: "real \<Rightarrow> real" where
  "foliage_rScatter u = 15 * root 3 u"

definition foliage_scatter :: "foliage_randoms \<Rightarrow> vec3" where
  "foliage_scatter r =
     (let rScatter = foliage_rScatter (u_rScatter r);
          thetaScatter = u_thetaScatter r * 2 * pi;
          phiScatter = arccos (2 * u_phiScatter r - 1);
          sx = rScatter * sin phiScatter * cos thetaScatter;
          sy = rScatter * sin phiScatter * sin thetaScatter;
          sz = rScatter * cos phiScatter
      in (sx, sy, sz))"

definition foliage_tree :: "nat \<Rightarrow> foliage_randoms \<Rightarrow> vec3" where
  "foliage_tree i r =
     (let treeHeight = 14;
          treeRadiusBase = 5;
          hNorm = u_hNorm r;
          h = (hNorm * treeHeight) - (treeHeight / 2);
          currentRadius = (1 - hNorm) * treeRadiusBase;
          angle = real i * 137.5 * (pi / 180);
          rOffset = (u_rOffset r - 0.5) * 0.5;
          tx = cos angle * (currentRadius + rOffset);
          tz = sin angle * (currentRadius + rOffset);
          ty = h
      in (tx, ty, tz))"

definition foliage_particle :: "nat \<Rightarrow> foliage_randoms \<Rightarrow> particle" where
  "foliage_particle i r =
     \<lparr>aScatterPos = foliage_scatter r, aTreePos = foliage_tree i r, aRandom = u_random r\<rparr>"

text \<open>
  The loop over \<open>i < count\<close>; the list of random draws has one entry per iteration
  (the component fixes \<open>count = 15000\<close>).
\<close>

definition Foliage_layout :: "foliage_randoms list \<Rightarrow> particle list" where
  "Foliage_layout rs = map (\<lambda>(i, r). foliage_particle i r) (enumerate 0 rs)"

subsection \<open>Foliage: vertex shader and frame callback\<close>

record uniforms =
  uTime :: real
  uProgress :: real

text \<open>
  The shader's easing. GLSL's \<^verbatim>\<open>pow(x, y)\<close> is defined for a non-negative base only,
  which \<open>powr\<close> reflects.
\<close>

definition easeInOutCubic :: "real \<Rightarrow> real" where
  "easeInOutCubic x =
     (if x < 0.5 then 4.0 * x * x * x else 1.0 - ((- 2.0 * x + 2.0) powr 3.0) / 2.0)"

definition vertexShader :: "uniforms \<Rightarrow> particle \<Rightarrow> vec3" where
  "vertexShader u a =
     (let easedProgress = easeInOutCubic (uProgress u);
          finalPos = mix (aScatterPos a) (aTreePos a) easedProgress;
          breath = sin (uTime u * 2.0 + aRandom a * 10.0) * 0.05;
          turbulence = sin (uTime u + vx (aScatterPos a)) * 0.1 * (1.0 - easedProgress);
          finalPos_y = vy finalPos + (breath + turbulence);
          finalPos_x = vx finalPos + cos (uTime u * 1.5 + aRandom a) * 0.02
      in (finalPos_x, finalPos_y, vz finalPos))"

text \<open>
  The component's mutable state: the progress reference and the shader reference, which
  is null while the material is not mounted.
\<close>

record foliage =
  f_progressRef :: real
  shaderRef :: "uniforms option"

definition Foliage_useFrame :: "TreeState \<Rightarrow> real \<Rightarrow> real \<Rightarrow> foliage \<Rightarrow> foliage" where
  "Foliage_useFrame ts elapsedTime delta st =
     (case shaderRef st of
        None \<Rightarrow> st
      | Some u \<Rightarrow>
          (let target = (if ts = TREE_SHAPE then 1 else 0);
               p = lerp (f_progressRef st) target (delta * 1.5)
           in \<lparr>f_progressRef = p, shaderRef = Some \<lparr>uTime = elapsedTime, uProgress = p\<rparr>\<rparr>))"

text \<open>A run of frames; each frame is the store's tree state, the elapsed time and the delta.\<close>

type_synonym frame = "TreeState \<times> real \<times> real"

fun Foliage_frames :: "frame list \<Rightarrow> foliage \<Rightarrow> foliage" where
  "Foliage_frames [] st = st"
| "Foliage_frames ((ts, elapsedTime, delta) # fs) st =
     Foliage_frames fs (Foliage_useFrame ts elapsedTime delta st)"

subsection \<open>Ornaments: layout generation\<close>

datatype ornament_type = box | sphere

text \<open>
  One iteration of the loop of \<^verbatim>\<open>useDualStateInstances\<close> calls \<^verbatim>\<open>Math.random()\<close>
  eight times, in this order: normalised height, tree azimuth, scatter radius, scatter
  azimuth, scatter polar angle, scale, and the two initial rotation angles.
\<close>

record ornament_randoms =
  o_hNorm :: real
  o_angle :: real
  o_rScatter :: real
  o_theta :: real
  o_phi :: real
  o_scale :: real
  o_rotX :: real
  o_rotY :: real

definition ornament_randoms_ok :: "ornament_randoms \<Rightarrow> bool" where
  "ornament_randoms_ok r \<longleftrightarrow>
     unit_interval (o_hNorm r) \<and> unit_interval (o_angle r) \<and>
     unit_interval (o_rScatter r) \<and> unit_interval (o_theta r) \<and>
     unit_interval (o_phi r) \<and> unit_interval (o_scale r) \<and>
     unit_interval (o_rotX r) \<and> unit_interval (o_rotY r)"

record DualPosition =
  scatter :: vec3
  tree :: vec3
  scale :: real
  rotation :: vec3

definition ornament_rScatter :: "real \<Rightarrow> real" where
  "ornament_rScatter u = 10 + u * 10"

definition ornament_tree :: "ornament_randoms \<Rightarrow> vec3" where
  "ornament_tree r =
     (let treeHeight = 12;
          treeRadiusBase = 4.5;
          hNorm = o_hNorm r;
          h = (hNorm * treeHeight) - (treeHeight / 2);
          currentRadius = ((1 - hNorm) * treeRadiusBase) + 0.2;
          angle = o_angle r * pi * 2;
          tx = cos angle * currentRadius;
          tz = sin angle * currentRadius;
          ty = h
      in (tx, ty, tz))"

definition ornament_scatter :: "ornament_randoms \<Rightarrow> vec3" where
  "ornament_scatter r =
     (let rScatter = ornament_rScatter (o_rScatter r);
          theta = o_theta r * 2 * pi;
          phi = arccos (2 * o_phi r - 1);
          sx = rScatter * sin phi * cos theta;
          sy = rScatter * sin phi * sin theta;
          sz = rScatter * cos phi
      in (sx, sy, sz))"

definition ornament_instance :: "ornament_type \<Rightarrow> ornament_randoms \<Rightarrow> DualPosition" where
  "ornament_instance type r =
     \<lparr>scatter = ornament_scatter r,
      tree = ornament_tree r,
      scale = (if type = box then 0.3 + o_scale r * 0.4 else 0.2 + o_scale r * 0.3),
      rotation = (o_rotX r * pi, o_rotY r * pi, 0)\<rparr>"

definition useDualStateInstances :: "ornament_type \<Rightarrow> ornament_randoms list \<Rightarrow> DualPosition list" where
  "useDualStateInstances type rs = map (ornament_instance type) rs"

subsection \<open>Ornaments: frame callback\<close>

text \<open>
  The matrix that \<^verbatim>\<open>updateMatrix\<close> composes from the scratch object, kept as the three
  components it is composed from: position, Euler rotation and scale.
\<close>

record Matrix4 =
  m_position :: vec3
  m_rotation :: vec3
  m_scale :: vec3

text \<open>
  The component's mutable state: the progress reference and the mesh reference (null
  while the mesh is not mounted), the mesh being its instance matrices.
\<close>

record ornaments =
  progressRef :: real
  meshRef :: "Matrix4 list option"

definition eased_of :: "real \<Rightarrow> real" where
  "eased_of p = (if p < 0.5 then 4 * p * p * p else 1 - ((- 2 * p + 2) ^ 3) / 2)"

definition instance_matrix :: "real \<Rightarrow> real \<Rightarrow> nat \<Rightarrow> DualPosition \<Rightarrow> Matrix4" where
  "instance_matrix time eased i d =
     (let cx = lerp (vx (scatter d)) (vx (tree d)) eased;
          cy = lerp (vy (scatter d)) (vy (tree d)) eased;
          cz = lerp (vz (scatter d)) (vz (tree d)) eased;
          rotX = vx (rotation d) + time * 0.1;
          rotY = vy (rotation d) + time * 0.2;
          scaleMult = 1.0 + (eased * 0.1 * sin (time + real i))
      in \<lparr>m_position = (cx, cy, cz),
          m_rotation = (rotX, rotY, vz (rotation d)),
          m_scale = (scale d * scaleMult, scale d * scaleMult, scale d * scaleMult)\<rparr>)"

text \<open>
  \<^verbatim>\<open>setMatrixAt(i, m)\<close> writes slot \<open>i\<close> of the instance buffer; a write past the end
  of the typed array is dropped, as \<open>ms[i := m]\<close> is.
\<close>

definition setMatrixAt :: "nat \<Rightarrow> Matrix4 \<Rightarrow> Matrix4 list \<Rightarrow> Matrix4 list" where
  "setMatrixAt i m ms = ms[i := m]"

text \<open>
  The progress assignment at the head of the ornaments' frame callback: the snap branch
  and the interpolation branch.
\<close>

definition ornament_progress :: "ornament_type \<Rightarrow> TreeState \<Rightarrow> real \<Rightarrow> real \<Rightarrow> real" where
  "ornament_progress type ts delta p =
     (let target = (if ts = TREE_SHAPE then 1 else 0);
          lerpSpeed = (if type = box then 1.0 else 1.5)
      in if \<bar>p - target\<bar> < 0.001 then target else lerp p target (delta * lerpSpeed))"

definition InstancedOrnaments_useFrame ::
  "ornament_type \<Rightarrow> DualPosition list \<Rightarrow> TreeState \<Rightarrow> real \<Rightarrow> real \<Rightarrow> ornaments \<Rightarrow> ornaments" where
  "InstancedOrnaments_useFrame type data ts elapsedTime delta st =
     (case meshRef st of
        None \<Rightarrow> st
      | Some ms \<Rightarrow>
          (let p = ornament_progress type ts delta (progressRef st);
               eased = eased_of p
           in \<lparr>progressRef = p,
               meshRef = Some (forEach (\<lambda>i d. setMatrixAt i (instance_matrix elapsedTime eased i d))
                                 0 data ms)\<rparr>))"

fun InstancedOrnaments_frames ::
  "ornament_type \<Rightarrow> DualPosition list \<Rightarrow> frame list \<Rightarrow> ornaments \<Rightarrow> ornaments" where
  "InstancedOrnaments_frames type data [] st = st"
| "InstancedOrnaments_frames type data ((ts, elapsedTime, delta) # fs) st =
     InstancedOrnaments_frames type data fs
       (InstancedOrnaments_useFrame type data ts elapsedTime delta st)"

text \<open>The target of a frame, as both callbacks compute it from the store's tree state.\<close>

definition target_of :: "TreeState \<Rightarrow> real" where
  "target_of ts = (if ts = TREE_SHAPE then 1 else 0)"

definition lerpSpeed_of :: "ornament_type \<Rightarrow> real" where
  "lerpSpeed_of type = (if type = box then 1.0 else 1.5)"

text \<open>Reading a frame, and runs of frames that hold the tree state and the delta fixed.\<close>

definition frame_state :: "frame \<Rightarrow> TreeState" where
  "frame_state f = fst f"

definition frame_delta :: "frame \<Rightarrow> real" where
  "frame_delta f = snd (snd f)"

definition steady :: "TreeState \<Rightarrow> real \<Rightarrow> frame list \<Rightarrow> bool" where
  "steady ts delta fs \<longleftrightarrow> list_all (\<lambda>f. frame_state f = ts \<and> frame_delta f = delta) fs"

section \<open>Auxiliary lemmas\<close>

subsection \<open>Easing and the instance loop\<close>

lemma powr_cube: "0 \<le> (x::real) \<Longrightarrow> x powr 3 = x ^ 3"
  by (cases "x = 0") (simp_all)

lemma easeInOutCubic_eq: "x \<le> 1 \<Longrightarrow> easeInOutCubic x = eased_of x"
  by (simp add: easeInOutCubic_def eased_of_def powr_cube)

lemma eased_of_mono:
  assumes "0 \<le> p" "p \<le> q" "q \<le> 1"
  shows "eased_of p \<le> eased_of q"
proof -
  consider (low) "q < 1/2" | (mid) "p < 1/2" "1/2 \<le> q" | (high) "1/2 \<le> p"
    by linarith
  then show ?thesis
  proof cases
    case low
    have "p ^ 3 \<le> q ^ 3" using assms by (intro power_mono) auto
    with low assms show ?thesis by (simp add: eased_of_def power3_eq_cube algebra_simps)
  next
    case mid
    have "p ^ 3 \<le> (1/2) ^ 3" using assms mid by (intro power_mono) auto
    then have a: "p ^ 3 \<le> 1/8" by (simp add: power3_eq_cube)
    have "(- 2 * q + 2) ^ 3 \<le> 1 ^ 3" using assms mid by (intro power_mono) auto
    then have b: "(- 2 * q + 2) ^ 3 \<le> 1" by simp
    from a b have "4 * p ^ 3 \<le> 1 - (- 2 * q + 2) ^ 3 / 2" by linarith
    then show ?thesis using mid by (simp add: eased_of_def power3_eq_cube mult.assoc)
  next
    case high
    have "(- 2 * q + 2) ^ 3 \<le> (- 2 * p + 2) ^ 3" using assms high by (intro power_mono) auto
    with high assms show ?thesis by (simp add: eased_of_def)
  qed
qed

lemma eased_of_values: "eased_of 0 = 0 \<and> eased_of 1 = 1 \<and> eased_of (1/2) = 1/2"
  by (simp add: eased_of_def power3_eq_cube)

lemma easeInOutCubic_values: "easeInOutCubic 0 = 0 \<and> easeInOutCubic 1 = 1 \<and> easeInOutCubic 0.5 = 0.5"
  by (simp add: easeInOutCubic_eq eased_of_values)

lemma forEach_setMatrixAt_length:
  "length (forEach (\<lambda>i d. setMatrixAt i (g i d)) n ds ms) = length ms"
  by (induction ds arbitrary: n ms) (simp_all add: setMatrixAt_def)

lemma forEach_setMatrixAt_nth:
  "k < length ms \<Longrightarrow>
   forEach (\<lambda>i d. setMatrixAt i (g i d)) n ds ms ! k =
     (if n \<le> k \<and> k < n + length ds then g k (ds ! (k - n)) else ms ! k)"
proof (induction ds arbitrary: n ms)
  case Nil
  then show ?case by auto
next
  case (Cons d ds)
  have "k < length (setMatrixAt n (g n d) ms)" using Cons.prems by (simp add: setMatrixAt_def)
  from Cons.IH[OF this, of "Suc n"] Cons.prems show ?case
    by (cases "k = n") (auto simp: setMatrixAt_def nth_list_update nth_Cons' Suc_diff_Suc)
qed

subsection \<open>One frame and runs of frames\<close>

lemma lerp_naive: "lerp x y t = x + (y - x) * t"
  by (simp add: lerp_def algebra_simps)

lemma lerp_unit:
  assumes "0 \<le> t" "t \<le> 1" "0 \<le> x" "x \<le> 1" "0 \<le> y" "y \<le> 1"
  shows "0 \<le> lerp x y t \<and> lerp x y t \<le> 1"
proof -
  have a: "0 \<le> (1 - t) * x" "0 \<le> t * y" using assms by simp_all
  have "(1 - t) * x \<le> (1 - t) * 1" using assms by (intro mult_left_mono) auto
  moreover have "t * y \<le> t * 1" using assms by (intro mult_left_mono) auto
  ultimately show ?thesis using a by (simp add: lerp_def)
qed

lemma Foliage_useFrame_unmounted:
  "shaderRef st = None \<Longrightarrow> Foliage_useFrame ts t d st = st"
  by (simp add: Foliage_useFrame_def)

lemma Foliage_useFrame_progress:
  "shaderRef st = Some u \<Longrightarrow>
   f_progressRef (Foliage_useFrame ts t d st) = lerp (f_progressRef st) (target_of ts) (d * 1.5)"
  by (simp add: Foliage_useFrame_def target_of_def Let_def)

lemma Foliage_useFrame_mounted:
  "shaderRef st = Some u \<Longrightarrow> \<exists>u'. shaderRef (Foliage_useFrame ts t d st) = Some u'"
  by (simp add: Foliage_useFrame_def Let_def)

lemma Foliage_frames_unmounted:
  "shaderRef st = None \<Longrightarrow> Foliage_frames fs st = st"
  by (induction fs st rule: Foliage_frames.induct) (simp_all add: Foliage_useFrame_unmounted)

lemma target_unit: "0 \<le> target_of ts \<and> target_of ts \<le> 1"
  by (simp add: target_of_def)

lemma Foliage_useFrame_unit:
  assumes "0 \<le> d" "d * 1.5 \<le> 1" "0 \<le> f_progressRef st" "f_progressRef st \<le> 1"
  shows "0 \<le> f_progressRef (Foliage_useFrame ts t d st) \<and> f_progressRef (Foliage_useFrame ts t d st) \<le> 1"
proof (cases "shaderRef st")
  case None
  then show ?thesis using assms by (simp add: Foliage_useFrame_unmounted)
next
  case (Some u)
  have "0 \<le> d * 1.5" using assms by simp
  with lerp_unit[of "d * 1.5" "f_progressRef st" "target_of ts"] assms target_unit[of ts]
  show ?thesis by (simp add: Foliage_useFrame_progress[OF Some])
qed

lemma Foliage_frames_unit:
  assumes "list_all (\<lambda>f. 0 \<le> frame_delta f \<and> frame_delta f * 1.5 \<le> 1) fs"
    and "0 \<le> f_progressRef st" "f_progressRef st \<le> 1"
  shows "0 \<le> f_progressRef (Foliage_frames fs st) \<and> f_progressRef (Foliage_frames fs st) \<le> 1"
  using assms
proof (induction fs st rule: Foliage_frames.induct)
  case (1 st)
  then show ?case by simp
next
  case (2 ts elapsedTime delta fs st)
  from 2 have d: "0 \<le> delta" "delta * 1.5 \<le> 1" by (simp_all add: frame_delta_def)
  from Foliage_useFrame_unit[OF d "2.prems"(2,3)] "2.prems"(1) "2.IH"
  show ?case by simp
qed

lemma ornament_progress_eq:
  "ornament_progress type ts d p =
     (if \<bar>p - target_of ts\<bar> < 0.001 then target_of ts
      else lerp p (target_of ts) (d * lerpSpeed_of type))"
  by (simp add: ornament_progress_def target_of_def lerpSpeed_of_def Let_def)

lemma ornament_progress_unit:
  assumes "0 \<le> d" "d * lerpSpeed_of type \<le> 1" "0 \<le> p" "p \<le> 1"
  shows "0 \<le> ornament_progress type ts d p \<and> ornament_progress type ts d p \<le> 1"
proof -
  have "0 \<le> d * lerpSpeed_of type" using assms by (simp add: lerpSpeed_of_def)
  with lerp_unit[of "d * lerpSpeed_of type" p "target_of ts"] assms target_unit[of ts]
  show ?thesis by (simp add: ornament_progress_eq)
qed

lemma InstancedOrnaments_useFrame_unmounted:
  "meshRef st = None \<Longrightarrow> InstancedOrnaments_useFrame type data ts t d st = st"
  by (simp add: InstancedOrnaments_useFrame_def)

lemma InstancedOrnaments_useFrame_progress:
  "meshRef st = Some ms \<Longrightarrow>
   progressRef (InstancedOrnaments_useFrame type data ts t d st) =
     ornament_progress type ts d (progressRef st)"
  by (simp add: InstancedOrnaments_useFrame_def Let_def)

lemma InstancedOrnaments_useFrame_mounted:
  "meshRef st = Some ms \<Longrightarrow> \<exists>ms'. meshRef (InstancedOrnaments_useFrame type data ts t d st) = Some ms'"
  by (simp add: InstancedOrnaments_useFrame_def Let_def)

lemma InstancedOrnaments_frames_unmounted:
  "meshRef st = None \<Longrightarrow> InstancedOrnaments_frames type data fs st = st"
  by (induction type data fs st rule: InstancedOrnaments_frames.induct)
     (simp_all add: InstancedOrnaments_useFrame_unmounted)

lemma InstancedOrnaments_useFrame_unit:
  assumes "0 \<le> d" "d * lerpSpeed_of type \<le> 1" "0 \<le> progressRef st" "progressRef st \<le> 1"
  shows "0 \<le> progressRef (InstancedOrnaments_useFrame type data ts t d st)
       \<and> progressRef (InstancedOrnaments_useFrame type data ts t d st) \<le> 1"
proof (cases "meshRef st")
  case None
  then show ?thesis using assms by (simp add: InstancedOrnaments_useFrame_unmounted)
next
  case (Some ms)
  show ?thesis using ornament_progress_unit[OF assms]
    by (simp add: InstancedOrnaments_useFrame_progress[OF Some])
qed

lemma InstancedOrnaments_frames_unit:
  assumes "list_all (\<lambda>f. 0 \<le> frame_delta f \<and> frame_delta f * lerpSpeed_of type \<le> 1) fs"
    and "0 \<le> progressRef st" "progressRef st \<le> 1"
  shows "0 \<le> progressRef (InstancedOrnaments_frames type data fs st)
       \<and> progressRef (InstancedOrnaments_frames type data fs st) \<le> 1"
  using assms
proof (induction type data fs st rule: InstancedOrnaments_frames.induct)
  case (1 type data st)
  then show ?case by simp
next
  case (2 type data ts elapsedTime delta fs st)
  from 2 have d: "0 \<le> delta" "delta * lerpSpeed_of type \<le> 1" by (simp_all add: frame_delta_def)
  from InstancedOrnaments_useFrame_unit[OF d "2.prems"(2,3)] "2.prems"(1) "2.IH"
  show ?case by simp
qed

lemma Foliage_useFrame_stays_mounted:
  "shaderRef st \<noteq> None \<Longrightarrow> shaderRef (Foliage_useFrame ts t d st) \<noteq> None"
  by (auto simp: Foliage_useFrame_def Let_def)

lemma Foliage_frames_mounted:
  "shaderRef st \<noteq> None \<Longrightarrow> shaderRef (Foliage_frames fs st) \<noteq> None"
  by (induction fs st rule: Foliage_frames.induct) (simp_all add: Foliage_useFrame_stays_mounted)

lemma Foliage_frames_append:
  "Foliage_frames (fs @ gs) st = Foliage_frames gs (Foliage_frames fs st)"
  by (induction fs st rule: Foliage_frames.induct) simp_all

lemma Foliage_frames_up:
  assumes "shaderRef st \<noteq> None" "steady TREE_SHAPE delta fs"
  shows "f_progressRef (Foliage_frames fs st) =
           1 - (1 - f_progressRef st) * (1 - delta * 1.5) ^ length fs"
  using assms
proof (induction fs st rule: Foliage_frames.induct)
  case (1 st)
  then show ?case by simp
next
  case (2 ts elapsedTime d fs st)
  from "2.prems" have f: "ts = TREE_SHAPE" "d = delta" "steady TREE_SHAPE delta fs"
    by (simp_all add: steady_def frame_state_def frame_delta_def)
  from "2.prems" obtain u where u: "shaderRef st = Some u" by auto
  have p: "f_progressRef (Foliage_useFrame ts elapsedTime d st) =
             1 - (1 - f_progressRef st) * (1 - delta * 1.5)"
    using f by (simp add: Foliage_useFrame_progress[OF u] lerp_def target_of_def field_simps)
  from "2.IH"[OF Foliage_useFrame_stays_mounted[OF "2.prems"(1)] f(3)] p
  show ?case by (simp add: algebra_simps)
qed

lemma Foliage_frames_down:
  assumes "shaderRef st \<noteq> None" "steady SCATTERED delta fs"
  shows "f_progressRef (Foliage_frames fs st) = f_progressRef st * (1 - delta * 1.5) ^ length fs"
  using assms
proof (induction fs st rule: Foliage_frames.induct)
  case (1 st)
  then show ?case by simp
next
  case (2 ts elapsedTime d fs st)
  from "2.prems" have f: "ts = SCATTERED" "d = delta" "steady SCATTERED delta fs"
    by (simp_all add: steady_def frame_state_def frame_delta_def)
  from "2.prems" obtain u where u: "shaderRef st = Some u" by auto
  have p: "f_progressRef (Foliage_useFrame ts elapsedTime d st) =
             f_progressRef st * (1 - delta * 1.5)"
    using f by (simp add: Foliage_useFrame_progress[OF u] lerp_def target_of_def field_simps)
  from "2.IH"[OF Foliage_useFrame_stays_mounted[OF "2.prems"(1)] f(3)] p
  show ?case by (simp add: algebra_simps)
qed


lemma InstancedOrnaments_useFrame_stays_mounted:
  "meshRef st \<noteq> None \<Longrightarrow> meshRef (InstancedOrnaments_useFrame type data ts t d st) \<noteq> None"
  by (auto simp: InstancedOrnaments_useFrame_def Let_def)

lemma InstancedOrnaments_frames_append:
  "InstancedOrnaments_frames type data (fs @ gs) st =
     InstancedOrnaments_frames type data gs (InstancedOrnaments_frames type data fs st)"
  by (induction type data fs st rule: InstancedOrnaments_frames.induct) simp_all

lemma list_all_take: "list_all P fs \<Longrightarrow> list_all P (take k fs)"
  by (auto simp: list_all_iff dest: in_set_takeD)

subsection \<open>Further facts about frames\<close>

lemma instance_matrix_fields:
  "m_rotation (instance_matrix t e i d) =
     (vx (rotation d) + t * 0.1, vy (rotation d) + t * 0.2, vz (rotation d))"
  "m_scale (instance_matrix t e i d) =
     (scale d * (1 + e * 0.1 * sin (t + real i)),
      scale d * (1 + e * 0.1 * sin (t + real i)),
      scale d * (1 + e * 0.1 * sin (t + real i)))"
  "m_position (instance_matrix t e i d) =
     (lerp (vx (scatter d)) (vx (tree d)) e,
      lerp (vy (scatter d)) (vy (tree d)) e,
      lerp (vz (scatter d)) (vz (tree d)) e)"
  by (simp_all add: instance_matrix_def Let_def)

lemma InstancedOrnaments_frames_mounted:
  "meshRef st \<noteq> None \<Longrightarrow> meshRef (InstancedOrnaments_frames type data fs st) \<noteq> None"
  by (induction type data fs st rule: InstancedOrnaments_frames.induct)
     (simp_all add: InstancedOrnaments_useFrame_stays_mounted)

lemma ex_less_Suc_shift: "(\<exists>k<Suc n. P k) \<longleftrightarrow> P 0 \<or> (\<exists>k<n. P (Suc k))"
  by (auto simp: less_Suc_eq_0_disj)

lemma ornament_progress_step:
  "ornament_progress type ts delta p =
     (if \<bar>p - target_of ts\<bar> < 0.001 then target_of ts
      else target_of ts + (1 - delta * lerpSpeed_of type) * (p - target_of ts))"
  by (simp add: ornament_progress_eq lerp_def algebra_simps)

lemma InstancedOrnaments_frames_leg:
  assumes "meshRef st \<noteq> None" and "steady ts delta fs"
  shows "progressRef (InstancedOrnaments_frames type data fs st) =
           (if \<exists>k<length fs. \<bar>(1 - delta * lerpSpeed_of type) ^ k * (progressRef st - target_of ts)\<bar> < 0.001
            then target_of ts
            else target_of ts
                 + (1 - delta * lerpSpeed_of type) ^ length fs * (progressRef st - target_of ts))"
  using assms
proof (induction type data fs st rule: InstancedOrnaments_frames.induct)
  case (1 type data st)
  then show ?case by simp
next
  case (2 type data ts' elapsedTime d fs st)
  let ?b = "1 - delta * lerpSpeed_of type"
  let ?T = "target_of ts"
  let ?p = "progressRef st"
  let ?st = "InstancedOrnaments_useFrame type data ts' elapsedTime d st"
  from "2.prems" have f: "ts' = ts" "d = delta" "steady ts delta fs"
    by (simp_all add: steady_def frame_state_def frame_delta_def)
  from "2.prems" obtain ms where ms: "meshRef st = Some ms" by auto
  have m: "meshRef ?st \<noteq> None"
    by (rule InstancedOrnaments_useFrame_stays_mounted[OF "2.prems"(1)])
  have p: "progressRef ?st = (if \<bar>?p - ?T\<bar> < 0.001 then ?T else ?T + ?b * (?p - ?T))"
    using f by (simp add: InstancedOrnaments_useFrame_progress[OF ms] ornament_progress_step)
  note ih = "2.IH"[OF m f(3)]
  show ?case
  proof (cases "\<bar>?p - ?T\<bar> < 0.001")
    case True
    then have "progressRef ?st = ?T" using p by simp
    with ih have "progressRef (InstancedOrnaments_frames type data fs ?st) = ?T" by simp
    moreover have "\<exists>k<length ((ts', elapsedTime, d) # fs). \<bar>?b ^ k * (?p - ?T)\<bar> < 0.001"
      using True by (intro exI[of _ 0]) simp
    ultimately show ?thesis by simp
  next
    case False
    then have q: "progressRef ?st - ?T = ?b * (?p - ?T)" using p by simp
    have r: "?b ^ Suc k * (?p - ?T) = ?b ^ k * (?b * (?p - ?T))" for k
      by (simp add: mult_ac)
    have e: "(\<exists>k<Suc (length fs). \<bar>?b ^ k * (?p - ?T)\<bar> < 0.001)
          \<longleftrightarrow> (\<exists>k<length fs. \<bar>?b ^ k * (?b * (?p - ?T))\<bar> < 0.001)"
      using False unfolding ex_less_Suc_shift r by simp
    have v: "?b ^ length fs * (?b * (?p - ?T)) = ?b ^ Suc (length fs) * (?p - ?T)"
      by simp
    have "progressRef (InstancedOrnaments_frames type data ((ts', elapsedTime, d) # fs) st) =
            progressRef (InstancedOrnaments_frames type data fs ?st)"
      by simp
    also have "\<dots> =
            (if \<exists>k<length fs. \<bar>?b ^ k * (?b * (?p - ?T))\<bar> < 0.001 then ?T
             else ?T + ?b ^ length fs * (?b * (?p - ?T)))"
      using ih unfolding q .
    also have "\<dots> = (if \<exists>k<Suc (length fs). \<bar>?b ^ k * (?p - ?T)\<bar> < 0.001 then ?T
             else ?T + ?b ^ Suc (length fs) * (?p - ?T))"
      by (simp only: e v)
    finally show ?thesis unfolding length_Cons .
  qed
qed

lemma InstancedOrnaments_frames_up:
  assumes "meshRef st \<noteq> None" and "steady TREE_SHAPE delta fs"
  shows "progressRef (InstancedOrnaments_frames type data fs st) =
           (if \<exists>k<length fs. \<bar>(1 - delta * lerpSpeed_of type) ^ k * (1 - progressRef st)\<bar> < 0.001
            then 1
            else 1 - (1 - delta * lerpSpeed_of type) ^ length fs * (1 - progressRef st))"
proof -
  have a: "\<bar>x * (p - 1)\<bar> = \<bar>x * (1 - p)\<bar>" for x p :: real
    by (simp add: abs_mult abs_minus_commute)
  have b: "1 + x * (p - 1) = 1 - x * (1 - p)" for x p :: real
    by (simp add: algebra_simps)
  have t: "target_of TREE_SHAPE = 1" by (simp add: target_of_def)
  show ?thesis
    using InstancedOrnaments_frames_leg[OF assms, of type data] unfolding t a b .
qed

lemma InstancedOrnaments_frames_down_exact:
  assumes "meshRef st \<noteq> None" and "steady SCATTERED delta fs"
  shows "progressRef (InstancedOrnaments_frames type data fs st) =
           (if \<exists>k<length fs. \<bar>(1 - delta * lerpSpeed_of type) ^ k * progressRef st\<bar> < 0.001
            then 0
            else (1 - delta * lerpSpeed_of type) ^ length fs * progressRef st)"
proof -
  have t: "target_of SCATTERED = 0" by (simp add: target_of_def)
  show ?thesis
    using InstancedOrnaments_frames_leg[OF assms, of type data] unfolding t diff_zero add_0 .
qed

lemma round_trip_difference:
  fixes x p :: real
  shows "x * (1 - x * (1 - p)) - p = (1 - x) * (x - p * (1 + x))"
  by (simp add: algebra_simps)

lemma retention_power_small: "(976 / 1000 :: real) ^ 300 < 1 / 100"
proof -
  have a: "(976 / 1000 :: real) ^ 5 \<le> 89 / 100" by (simp add: power_divide)
  have b: "(89 / 100 :: real) ^ 4 \<le> 63 / 100" by (simp add: power_divide)
  have c: "(63 / 100 :: real) ^ 3 \<le> 26 / 100" by (simp add: power_divide)
  have d: "(26 / 100 :: real) ^ 5 < 1 / 100" by (simp add: power_divide)
  have "(976 / 1000 :: real) ^ 300 = (((976 / 1000) ^ 5) ^ 4) ^ 15"
    by (simp only: power_mult [symmetric]) simp
  also have "\<dots> \<le> ((89 / 100) ^ 4) ^ 15" using a by (intro power_mono) auto
  also have "\<dots> \<le> (63 / 100) ^ 15" using b by (intro power_mono) auto
  also have "\<dots> = ((63 / 100) ^ 3) ^ 5" by (simp only: power_mult [symmetric]) simp
  also have "\<dots> \<le> (26 / 100) ^ 5" using c by (intro power_mono) auto
  also have "\<dots> < 1 / 100" by (rule d)
  finally show ?thesis .
qed

subsection \<open>Geometry of the layouts\<close>

lemma sphere_distance:
  "sqrt ((r * sin p * cos t)\<^sup>2 + (r * sin p * sin t)\<^sup>2 + (r * cos p)\<^sup>2) = \<bar>r\<bar>"
proof -
  have "(r * sin p * cos t)\<^sup>2 + (r * sin p * sin t)\<^sup>2 + (r * cos p)\<^sup>2
      = r\<^sup>2 * ((sin p)\<^sup>2 * ((cos t)\<^sup>2 + (sin t)\<^sup>2) + (cos p)\<^sup>2)"
    by (simp only: power_mult_distrib algebra_simps)
  also have "\<dots> = r\<^sup>2" by simp
  finally show ?thesis by simp
qed

lemma circle_distance:
  "sqrt ((cos a * r)\<^sup>2 + (sin a * r)\<^sup>2) = \<bar>r\<bar>"
proof -
  have "(cos a * r)\<^sup>2 + (sin a * r)\<^sup>2 = r\<^sup>2 * ((cos a)\<^sup>2 + (sin a)\<^sup>2)"
    by (simp only: power_mult_distrib algebra_simps)
  also have "\<dots> = r\<^sup>2" by simp
  finally show ?thesis by simp
qed

lemma Foliage_layout_nth:
  "i < length rs \<Longrightarrow> Foliage_layout rs ! i = foliage_particle i (rs ! i)"
  by (simp add: Foliage_layout_def nth_enumerate_eq)

lemma useDualStateInstances_nth:
  "i < length rs \<Longrightarrow> useDualStateInstances type rs ! i = ornament_instance type (rs ! i)"
  by (simp add: useDualStateInstances_def)

lemma foliage_scatter_distance:
  "distance_origin (foliage_scatter r) = \<bar>foliage_rScatter (u_rScatter r)\<bar>"
  by (simp add: distance_origin_def foliage_scatter_def Let_def vx_def vy_def vz_def
      sphere_distance)

lemma ornament_scatter_distance:
  "distance_origin (ornament_scatter r) = \<bar>ornament_rScatter (o_rScatter r)\<bar>"
  by (simp add: distance_origin_def ornament_scatter_def Let_def vx_def vy_def vz_def
      sphere_distance)

lemma foliage_rScatter_bounds:
  assumes "unit_interval u"
  shows "0 \<le> foliage_rScatter u \<and> foliage_rScatter u \<le> 15"
proof -
  have "0 \<le> root 3 u" using assms by (simp add: unit_interval_def real_root_ge_zero)
  moreover have "root 3 u \<le> root 3 1" using assms by (simp add: unit_interval_def)
  ultimately show ?thesis by (simp add: foliage_rScatter_def)
qed

lemma foliage_tree_axis:
  "distance_axis (foliage_tree i r) = \<bar>(1 - u_hNorm r) * 5 + (u_rOffset r - 0.5) * 0.5\<bar>"
  by (simp add: distance_axis_def foliage_tree_def Let_def vx_def vz_def circle_distance)

lemma ornament_tree_axis:
  "distance_axis (ornament_tree r) = \<bar>(1 - o_hNorm r) * 4.5 + 0.2\<bar>"
  by (simp add: distance_axis_def ornament_tree_def Let_def vx_def vz_def circle_distance)

lemma foliage_tree_height: "vy (foliage_tree i r) = u_hNorm r * 14 - 14 / 2"
  by (simp add: foliage_tree_def Let_def vy_def)

lemma ornament_tree_height: "vy (ornament_tree r) = o_hNorm r * 12 - 12 / 2"
  by (simp add: ornament_tree_def Let_def vy_def)

lemma mix_one: "mix a b 1 = b"
  by (simp add: mix_def vx_def vy_def vz_def)

section \<open>Properties\<close>

subsection \<open>The store\<close>

text \<open>
  C10. Calling \<open>toggleState\<close> twice in succession returns \<open>treeState\<close> to the value it
  had before the first call, and every single call sets \<open>isMorphing\<close> to true, whatever
  the state was.
\<close>

theorem toggleState_involution:
  "treeState (toggleState (toggleState state)) = treeState state
   \<and> isMorphing (toggleState state)"
  by (cases "treeState state") (simp_all add: toggleState_def)

subsection \<open>The per-frame progress update\<close>

text \<open>
  C1 (as amended). With the shader or mesh mounted, one frame moves the progress by the
  linear interpolation \<open>progress + (target - progress) * (lerpRate * delta)\<close>, with
  \<open>lerpRate = 1.5\<close> for the foliage and spheres and \<open>1.0\<close> for boxes; no exponential is
  involved. The ornaments do so only while the progress is at least \<open>0.001\<close> away from the
  target, and otherwise set it to the target.
\<close>

theorem progress_update_linear:
  "(shaderRef fol \<noteq> None \<longrightarrow>
      f_progressRef (Foliage_useFrame ts t delta fol) =
        f_progressRef fol + (target_of ts - f_progressRef fol) * (1.5 * delta))
   \<and> (meshRef orn \<noteq> None \<and> \<not> \<bar>progressRef orn - target_of ts\<bar> < 0.001 \<longrightarrow>
      progressRef (InstancedOrnaments_useFrame type data ts t delta orn) =
        progressRef orn + (target_of ts - progressRef orn) * (lerpSpeed_of type * delta))
   \<and> (meshRef orn \<noteq> None \<and> \<bar>progressRef orn - target_of ts\<bar> < 0.001 \<longrightarrow>
      progressRef (InstancedOrnaments_useFrame type data ts t delta orn) = target_of ts)"
  by (auto simp: Foliage_useFrame_progress InstancedOrnaments_useFrame_progress
      ornament_progress_eq lerp_naive mult.commute)

theorem progress_update_linear_witness:
  "f_progressRef (Foliage_useFrame TREE_SHAPE 0 (16 / 1000)
      \<lparr>f_progressRef = 0, shaderRef = Some \<lparr>uTime = 0, uProgress = 0\<rparr>\<rparr>) = 24 / 1000
   \<and> progressRef (InstancedOrnaments_useFrame box [] TREE_SHAPE 0 (16 / 1000)
      \<lparr>progressRef = 0, meshRef = Some []\<rparr>) = 16 / 1000
   \<and> progressRef (InstancedOrnaments_useFrame sphere [] SCATTERED 0 (16 / 1000)
      \<lparr>progressRef = 1 / 2000, meshRef = Some []\<rparr>) = 0"
  using progress_update_linear [of "\<lparr>f_progressRef = 0, shaderRef = Some \<lparr>uTime = 0, uProgress = 0\<rparr>\<rparr>"
      TREE_SHAPE 0 "16 / 1000" "\<lparr>progressRef = 0, meshRef = Some []\<rparr>" box "[]"]
    progress_update_linear [of "\<lparr>f_progressRef = 0, shaderRef = Some \<lparr>uTime = 0, uProgress = 0\<rparr>\<rparr>"
      SCATTERED 0 "16 / 1000" "\<lparr>progressRef = 1 / 2000, meshRef = Some []\<rparr>" sphere "[]"]
  by (simp add: target_of_def lerpSpeed_of_def)

text \<open>
  C1 as stated fails: from progress 0 towards the tree with a delta of one second the
  foliage moves to \<open>1.5\<close>, the value of the linear form, which is not the value
  \<open>1 - exp (- 1.5)\<close> of the exponential form.
\<close>

theorem progress_update_exponential_counterexample:
  "f_progressRef (Foliage_useFrame TREE_SHAPE 1 1
      \<lparr>f_progressRef = 0, shaderRef = Some \<lparr>uTime = 0, uProgress = 0\<rparr>\<rparr>)
     = 0 + (1 - 0) * (1.5 * 1)
   \<and> f_progressRef (Foliage_useFrame TREE_SHAPE 1 1
      \<lparr>f_progressRef = 0, shaderRef = Some \<lparr>uTime = 0, uProgress = 0\<rparr>\<rparr>)
     \<noteq> 0 + (1 - 0) * (1 - exp (- 1.5 * 1))"
proof -
  have "0 < exp (- (3 / 2) :: real)" by (rule exp_gt_zero)
  then have "(3 / 2 :: real) \<noteq> 1 - exp (- (3 / 2))" by linarith
  then show ?thesis by (simp add: Foliage_useFrame_def lerp_def Let_def)
qed

text \<open>
  C2 (as amended). Starting from progress 0, after every frame of a run whose deltas are
  non-negative and satisfy \<open>lerpRate * delta \<le> 1\<close>, the progress of the foliage and of
  every ornament group lies in the unit interval, whatever the targets are. The frame
  callbacks do not clamp.
\<close>

theorem progress_in_unit_interval:
  "(list_all (\<lambda>f. 0 \<le> frame_delta f \<and> frame_delta f * 1.5 \<le> 1) fs \<and> f_progressRef fol = 0 \<longrightarrow>
      0 \<le> f_progressRef (Foliage_frames (take k fs) fol)
      \<and> f_progressRef (Foliage_frames (take k fs) fol) \<le> 1)
   \<and> (list_all (\<lambda>f. 0 \<le> frame_delta f \<and> frame_delta f * lerpSpeed_of type \<le> 1) fs
       \<and> progressRef orn = 0 \<longrightarrow>
      0 \<le> progressRef (InstancedOrnaments_frames type data (take k fs) orn)
      \<and> progressRef (InstancedOrnaments_frames type data (take k fs) orn) \<le> 1)"
proof (intro conjI impI)
  assume a: "list_all (\<lambda>f. 0 \<le> frame_delta f \<and> frame_delta f * 1.5 \<le> 1) fs \<and> f_progressRef fol = 0"
  then have "list_all (\<lambda>f. 0 \<le> frame_delta f \<and> frame_delta f * 1.5 \<le> 1) (take k fs)"
    by (simp add: list_all_take)
  from Foliage_frames_unit[OF this, of fol] a
  show "0 \<le> f_progressRef (Foliage_frames (take k fs) fol)"
    and "f_progressRef (Foliage_frames (take k fs) fol) \<le> 1" by simp_all
next
  assume a: "list_all (\<lambda>f. 0 \<le> frame_delta f \<and> frame_delta f * lerpSpeed_of type \<le> 1) fs
       \<and> progressRef orn = 0"
  then have "list_all (\<lambda>f. 0 \<le> frame_delta f \<and> frame_delta f * lerpSpeed_of type \<le> 1) (take k fs)"
    by (simp add: list_all_take)
  from InstancedOrnaments_frames_unit[OF this, of orn data] a
  show "0 \<le> progressRef (InstancedOrnaments_frames type data (take k fs) orn)"
    and "progressRef (InstancedOrnaments_frames type data (take k fs) orn) \<le> 1" by simp_all
qed

theorem progress_in_unit_interval_witness:
  "0 \<le> f_progressRef (Foliage_frames (take 2 [(TREE_SHAPE, 0, 1 / 2), (SCATTERED, 1 / 2, 2 / 3)])
           \<lparr>f_progressRef = 0, shaderRef = Some \<lparr>uTime = 0, uProgress = 0\<rparr>\<rparr>)
   \<and> f_progressRef (Foliage_frames (take 2 [(TREE_SHAPE, 0, 1 / 2), (SCATTERED, 1 / 2, 2 / 3)])
           \<lparr>f_progressRef = 0, shaderRef = Some \<lparr>uTime = 0, uProgress = 0\<rparr>\<rparr>) \<le> 1
   \<and> 0 \<le> progressRef (InstancedOrnaments_frames sphere []
           (take 2 [(TREE_SHAPE, 0, 1 / 2), (SCATTERED, 1 / 2, 2 / 3)])
           \<lparr>progressRef = 0, meshRef = Some []\<rparr>)
   \<and> progressRef (InstancedOrnaments_frames sphere []
           (take 2 [(TREE_SHAPE, 0, 1 / 2), (SCATTERED, 1 / 2, 2 / 3)])
           \<lparr>progressRef = 0, meshRef = Some []\<rparr>) \<le> 1"
  using progress_in_unit_interval [of "[(TREE_SHAPE, 0, 1 / 2), (SCATTERED, 1 / 2, 2 / 3)]"
      "\<lparr>f_progressRef = 0, shaderRef = Some \<lparr>uTime = 0, uProgress = 0\<rparr>\<rparr>" 2 sphere
      "\<lparr>progressRef = 0, meshRef = Some []\<rparr>" "[]"]
  by (simp add: frame_delta_def lerpSpeed_of_def)

text \<open>
  C2 as stated fails: a single frame towards the tree with a delta of one second takes
  the foliage from progress 0 to \<open>1.5\<close>, outside the unit interval.
\<close>

theorem progress_unclamped_counterexample:
  "\<not> f_progressRef (Foliage_frames [(TREE_SHAPE, 1, 1)]
        \<lparr>f_progressRef = 0, shaderRef = Some \<lparr>uTime = 0, uProgress = 0\<rparr>\<rparr>) \<le> 1"
  by (simp add: Foliage_useFrame_def lerp_def Let_def)

text \<open>
  C6 (as amended). With the shader or mesh mounted, \<open>N\<close> frames towards the tree followed
  by \<open>N\<close> frames towards the scatter, all with the same delta, take the foliage from any
  starting progress \<open>p0\<close> to exactly \<open>a ^ N * (1 - a ^ N * (1 - p0))\<close>, where
  \<open>a = 1 - 1.5 * delta\<close>; so the progress is back within \<open>0.01\<close> of \<open>p0\<close> if and only
  if \<open>\<bar>(1 - a ^ N) * (a ^ N - p0 * (1 + a ^ N))\<bar> \<le> 0.01\<close>. An ornament group ends at the
  same expression with its own rate, except that a leg one of whose \<open>N\<close> frames begins
  less than \<open>0.001\<close> away from the leg's target ends exactly at that target.
\<close>

theorem round_trip_value:
  assumes "steady TREE_SHAPE delta up" and "steady SCATTERED delta down"
    and "length up = N" and "length down = N"
  shows "(shaderRef fol \<noteq> None \<and> f_progressRef fol = p0 \<longrightarrow>
            f_progressRef (Foliage_frames (up @ down) fol)
              = (1 - delta * 1.5) ^ N * (1 - (1 - delta * 1.5) ^ N * (1 - p0))
          \<and> (\<bar>f_progressRef (Foliage_frames (up @ down) fol) - p0\<bar> \<le> 0.01 \<longleftrightarrow>
               \<bar>(1 - (1 - delta * 1.5) ^ N)
                  * ((1 - delta * 1.5) ^ N - p0 * (1 + (1 - delta * 1.5) ^ N))\<bar> \<le> 0.01))
       \<and> (meshRef orn \<noteq> None \<and> progressRef orn = p0 \<longrightarrow>
            progressRef (InstancedOrnaments_frames type data (up @ down) orn)
              = (let b = 1 - delta * lerpSpeed_of type;
                     q = (if \<exists>k<N. \<bar>b ^ k * (1 - p0)\<bar> < 0.001 then 1
                          else 1 - b ^ N * (1 - p0))
                 in if \<exists>k<N. \<bar>b ^ k * q\<bar> < 0.001 then 0 else b ^ N * q))"
proof (intro conjI impI)
  assume h: "shaderRef fol \<noteq> None \<and> f_progressRef fol = p0"
  let ?a = "1 - delta * 1.5"
  have m: "shaderRef fol \<noteq> None" using h by simp
  have u: "f_progressRef (Foliage_frames up fol) = 1 - (1 - p0) * ?a ^ N"
    using Foliage_frames_up[OF m assms(1)] h assms(3) by simp
  have "f_progressRef (Foliage_frames (up @ down) fol)
          = f_progressRef (Foliage_frames up fol) * ?a ^ N"
    using Foliage_frames_down[OF Foliage_frames_mounted[OF m] assms(2), of up] assms(4)
    by (simp add: Foliage_frames_append)
  then show v: "f_progressRef (Foliage_frames (up @ down) fol) = ?a ^ N * (1 - ?a ^ N * (1 - p0))"
    unfolding u by (simp add: mult.commute)
  show "\<bar>f_progressRef (Foliage_frames (up @ down) fol) - p0\<bar> \<le> 0.01 \<longleftrightarrow>
        \<bar>(1 - ?a ^ N) * (?a ^ N - p0 * (1 + ?a ^ N))\<bar> \<le> 0.01"
    unfolding v round_trip_difference ..
next
  assume h: "meshRef orn \<noteq> None \<and> progressRef orn = p0"
  let ?b = "1 - delta * lerpSpeed_of type"
  let ?st = "InstancedOrnaments_frames type data up orn"
  have m: "meshRef orn \<noteq> None" using h by simp
  have po: "progressRef orn = p0" using h by simp
  have u: "progressRef ?st =
      (if \<exists>k<N. \<bar>?b ^ k * (1 - p0)\<bar> < 0.001 then 1 else 1 - ?b ^ N * (1 - p0))"
    using InstancedOrnaments_frames_up[OF m assms(1), of type data] unfolding po assms(3) .
  have m': "meshRef ?st \<noteq> None" by (rule InstancedOrnaments_frames_mounted[OF m])
  have d: "progressRef (InstancedOrnaments_frames type data down ?st) =
      (if \<exists>k<N. \<bar>?b ^ k * progressRef ?st\<bar> < 0.001 then 0 else ?b ^ N * progressRef ?st)"
    using InstancedOrnaments_frames_down_exact[OF m' assms(2), of type data]
    unfolding assms(4) .
  show "progressRef (InstancedOrnaments_frames type data (up @ down) orn)
          = (let b = 1 - delta * lerpSpeed_of type;
                 q = (if \<exists>k<N. \<bar>b ^ k * (1 - p0)\<bar> < 0.001 then 1
                      else 1 - b ^ N * (1 - p0))
             in if \<exists>k<N. \<bar>b ^ k * q\<bar> < 0.001 then 0 else b ^ N * q)"
    unfolding InstancedOrnaments_frames_append Let_def d u ..
qed

theorem round_trip_value_witness:
  "f_progressRef (Foliage_frames ([(TREE_SHAPE, 0, 1 / 3)] @ [(SCATTERED, 1 / 3, 1 / 3)])
        \<lparr>f_progressRef = 1 / 3, shaderRef = Some \<lparr>uTime = 0, uProgress = 1 / 3\<rparr>\<rparr>) = 1 / 3
   \<and> \<bar>f_progressRef (Foliage_frames ([(TREE_SHAPE, 0, 1 / 3)] @ [(SCATTERED, 1 / 3, 1 / 3)])
        \<lparr>f_progressRef = 1 / 3, shaderRef = Some \<lparr>uTime = 0, uProgress = 1 / 3\<rparr>\<rparr>) - 1 / 3\<bar>
       \<le> 0.01
   \<and> progressRef (InstancedOrnaments_frames sphere []
        ([(TREE_SHAPE, 0, 1 / 3)] @ [(SCATTERED, 1 / 3, 1 / 3)])
        \<lparr>progressRef = 1 / 3, meshRef = Some []\<rparr>) = 1 / 3"
  using round_trip_value [of "1 / 3" "[(TREE_SHAPE, 0, 1 / 3)]" "[(SCATTERED, 1 / 3, 1 / 3)]" 1
      "\<lparr>f_progressRef = 1 / 3, shaderRef = Some \<lparr>uTime = 0, uProgress = 1 / 3\<rparr>\<rparr>" "1 / 3"
      "\<lparr>progressRef = 1 / 3, meshRef = Some []\<rparr>" sphere "[]"]
  by (simp add: steady_def frame_state_def frame_delta_def lerpSpeed_of_def)

text \<open>
  C6 as stated fails: starting from progress 1, one frame towards the tree and one frame
  towards the scatter with a delta of \<open>0.016\<close> leave the foliage at \<open>0.976\<close>, which is
  \<open>0.024\<close> away from its starting value.
\<close>

theorem round_trip_counterexample:
  "\<not> \<bar>f_progressRef (Foliage_frames
          (replicate 1 (TREE_SHAPE, 0, 0.016) @ replicate 1 (SCATTERED, 0, 0.016))
          \<lparr>f_progressRef = 1, shaderRef = Some \<lparr>uTime = 0, uProgress = 1\<rparr>\<rparr>) - 1\<bar> \<le> 0.01"
  by (simp add: Foliage_useFrame_def lerp_def Let_def)

text \<open>
  C7. Starting from progress 0 with the shader mounted, 300 frames towards the tree with a
  delta of \<open>0.016\<close> each (the foliage's rate being \<open>1.5\<close>) leave a progress strictly
  greater than \<open>0.99\<close>.
\<close>

theorem foliage_converges_in_300_frames:
  assumes "shaderRef fol \<noteq> None" and "f_progressRef fol = 0"
    and "steady TREE_SHAPE 0.016 fs" and "length fs = 300"
  shows "0.99 < f_progressRef (Foliage_frames fs fol)"
proof -
  have "f_progressRef (Foliage_frames fs fol) = 1 - (1 - 0.016 * 1.5) ^ 300"
    using Foliage_frames_up[OF assms(1,3)] assms(2,4) by simp
  also have "\<dots> = 1 - (976 / 1000) ^ 300" by simp
  finally show ?thesis using retention_power_small by simp
qed

theorem foliage_converges_in_300_frames_witness:
  "0.99 < f_progressRef (Foliage_frames (replicate 300 (TREE_SHAPE, 0, 0.016))
            \<lparr>f_progressRef = 0, shaderRef = Some \<lparr>uTime = 0, uProgress = 0\<rparr>\<rparr>)"
  using foliage_converges_in_300_frames [of
      "\<lparr>f_progressRef = 0, shaderRef = Some \<lparr>uTime = 0, uProgress = 0\<rparr>\<rparr>"
      "replicate 300 (TREE_SHAPE, 0, 0.016)"]
  by (simp add: steady_def list_all_iff frame_state_def frame_delta_def)

subsection \<open>Snapping and secondary motion of the ornaments\<close>

text \<open>
  C5. When a frame of a mounted ornament group begins with the progress less than \<open>0.001\<close>
  away from the target, the progress becomes exactly the target, and the same frame still
  writes every instance: the rotation is the base rotation advanced by \<open>0.1 t\<close> and
  \<open>0.2 t\<close>, the scale is the base scale pulsed by \<open>1 + eased * 0.1 * sin (t + index)\<close>, and
  the position is the eased interpolation, with \<open>eased\<close> taken at the snapped progress.
\<close>

theorem snap_keeps_secondary_motion:
  assumes "meshRef orn = Some ms" and "\<bar>progressRef orn - target_of ts\<bar> < 0.001"
  shows "progressRef (InstancedOrnaments_useFrame type data ts t delta orn) = target_of ts
    \<and> (\<exists>ms'. meshRef (InstancedOrnaments_useFrame type data ts t delta orn) = Some ms'
          \<and> length ms' = length ms
          \<and> (\<forall>i. i < length data \<and> i < length ms \<longrightarrow>
                m_rotation (ms' ! i) =
                  (vx (rotation (data ! i)) + t * 0.1, vy (rotation (data ! i)) + t * 0.2,
                   vz (rotation (data ! i)))
              \<and> m_scale (ms' ! i) =
                  (scale (data ! i) * (1 + eased_of (target_of ts) * 0.1 * sin (t + real i)),
                   scale (data ! i) * (1 + eased_of (target_of ts) * 0.1 * sin (t + real i)),
                   scale (data ! i) * (1 + eased_of (target_of ts) * 0.1 * sin (t + real i)))
              \<and> m_position (ms' ! i) =
                  (lerp (vx (scatter (data ! i))) (vx (tree (data ! i))) (eased_of (target_of ts)),
                   lerp (vy (scatter (data ! i))) (vy (tree (data ! i))) (eased_of (target_of ts)),
                   lerp (vz (scatter (data ! i))) (vz (tree (data ! i))) (eased_of (target_of ts)))))"
proof -
  let ?st = "InstancedOrnaments_useFrame type data ts t delta orn"
  let ?e = "eased_of (target_of ts)"
  let ?ms = "forEach (\<lambda>i d. setMatrixAt i (instance_matrix t ?e i d)) 0 data ms"
  have p: "ornament_progress type ts delta (progressRef orn) = target_of ts"
    using assms(2) by (simp add: ornament_progress_eq)
  have m: "meshRef ?st = Some ?ms"
    using assms(1) p by (simp add: InstancedOrnaments_useFrame_def Let_def)
  have l: "length ?ms = length ms" by (rule forEach_setMatrixAt_length)
  have n: "?ms ! i = instance_matrix t ?e i (data ! i)" if "i < length data" "i < length ms" for i
    using that forEach_setMatrixAt_nth[of i ms "instance_matrix t ?e" 0 data] by simp
  have "progressRef ?st = target_of ts"
    using p by (simp add: InstancedOrnaments_useFrame_progress[OF assms(1)])
  moreover have "\<forall>i. i < length data \<and> i < length ms \<longrightarrow>
      m_rotation (?ms ! i) =
        (vx (rotation (data ! i)) + t * 0.1, vy (rotation (data ! i)) + t * 0.2,
         vz (rotation (data ! i)))
      \<and> m_scale (?ms ! i) =
        (scale (data ! i) * (1 + ?e * 0.1 * sin (t + real i)),
         scale (data ! i) * (1 + ?e * 0.1 * sin (t + real i)),
         scale (data ! i) * (1 + ?e * 0.1 * sin (t + real i)))
      \<and> m_position (?ms ! i) =
        (lerp (vx (scatter (data ! i))) (vx (tree (data ! i))) ?e,
         lerp (vy (scatter (data ! i))) (vy (tree (data ! i))) ?e,
         lerp (vz (scatter (data ! i))) (vz (tree (data ! i))) ?e)"
    by (simp add: n instance_matrix_fields)
  ultimately show ?thesis using m l by blast
qed

theorem snap_keeps_secondary_motion_witness:
  "progressRef (InstancedOrnaments_useFrame box
       [\<lparr>scatter = (10, 0, 0), tree = (0, 6, 0), scale = 1 / 2, rotation = (1, 2, 0)\<rparr>]
       SCATTERED 10 (16 / 1000)
       \<lparr>progressRef = 1 / 2000,
        meshRef = Some [\<lparr>m_position = (0, 0, 0), m_rotation = (0, 0, 0), m_scale = (1, 1, 1)\<rparr>]\<rparr>) = 0
   \<and> (\<exists>ms'. meshRef (InstancedOrnaments_useFrame box
       [\<lparr>scatter = (10, 0, 0), tree = (0, 6, 0), scale = 1 / 2, rotation = (1, 2, 0)\<rparr>]
       SCATTERED 10 (16 / 1000)
       \<lparr>progressRef = 1 / 2000,
        meshRef = Some [\<lparr>m_position = (0, 0, 0), m_rotation = (0, 0, 0), m_scale = (1, 1, 1)\<rparr>]\<rparr>) = Some ms'
      \<and> length ms' = 1
      \<and> m_rotation (ms' ! 0) = (2, 4, 0)
      \<and> m_scale (ms' ! 0) = (1 / 2, 1 / 2, 1 / 2)
      \<and> m_position (ms' ! 0) = (10, 0, 0))"
  using snap_keeps_secondary_motion [of
      "\<lparr>progressRef = 1 / 2000,
        meshRef = Some [\<lparr>m_position = (0, 0, 0), m_rotation = (0, 0, 0), m_scale = (1, 1, 1)\<rparr>]\<rparr>"
      "[\<lparr>m_position = (0, 0, 0), m_rotation = (0, 0, 0), m_scale = (1, 1, 1)\<rparr>]"
      SCATTERED box
      "[\<lparr>scatter = (10, 0, 0), tree = (0, 6, 0), scale = 1 / 2, rotation = (1, 2, 0)\<rparr>]"
      10 "16 / 1000"]
  by (simp add: target_of_def eased_of_values lerp_def vx_def vy_def vz_def)

subsection \<open>Easing\<close>

text \<open>
  C8. The cubic ease-in-out, in the ornaments' callback and in the foliage's shader, is
  \<open>4 p ^ 3\<close> below one half and \<open>1 - (- 2 p + 2) ^ 3 / 2\<close> from there on; it maps 0 to 0,
  1 to 1 and one half to one half, and it is monotonically non-decreasing on the unit
  interval.
\<close>

theorem eased_endpoints_monotone:
  assumes "0 \<le> p" and "p \<le> q" and "q \<le> 1"
  shows "eased_of 0 = 0 \<and> eased_of 1 = 1 \<and> eased_of 0.5 = 0.5
       \<and> eased_of p \<le> eased_of q
       \<and> easeInOutCubic 0 = 0 \<and> easeInOutCubic 1 = 1 \<and> easeInOutCubic 0.5 = 0.5
       \<and> easeInOutCubic p \<le> easeInOutCubic q
       \<and> eased_of p = (if p < 0.5 then 4 * p ^ 3 else 1 - (- 2 * p + 2) ^ 3 / 2)
       \<and> easeInOutCubic p = (if p < 0.5 then 4 * p ^ 3 else 1 - (- 2 * p + 2) ^ 3 / 2)"
proof -
  have "p \<le> 1" using assms by simp
  then have "easeInOutCubic p = eased_of p" "easeInOutCubic q = eased_of q"
    using assms(3) by (simp_all add: easeInOutCubic_eq)
  moreover have "eased_of p = (if p < 0.5 then 4 * p ^ 3 else 1 - (- 2 * p + 2) ^ 3 / 2)"
    by (simp add: eased_of_def power3_eq_cube mult.assoc)
  moreover have "eased_of 0.5 = 0.5" using eased_of_values by simp
  moreover have "easeInOutCubic 0.5 = 0.5" using easeInOutCubic_values by simp
  ultimately show ?thesis
    using eased_of_mono[OF assms] eased_of_values easeInOutCubic_values by simp
qed

theorem eased_endpoints_monotone_witness:
  "eased_of (1 / 4) \<le> eased_of (3 / 4) \<and> easeInOutCubic (1 / 4) \<le> easeInOutCubic (3 / 4)
   \<and> eased_of (1 / 4) = 1 / 16"
  using eased_endpoints_monotone [of "1 / 4" "3 / 4"] by (simp add: power3_eq_cube)

subsection \<open>Layout generation\<close>

text \<open>
  C3 (as amended). Every scatter position lies at distance exactly \<open>rScatter\<close> from the
  origin, whatever the random draws in the half-open unit interval are. The foliage takes
  \<open>rScatter = 15 * cbrt u\<close> (uniform in the ball of radius 15), so the distance is at most
  15; the ornaments take \<open>rScatter = 10 + 10 u\<close> (a shell, no cube root), so the distance
  lies between 10 and 20. Both use the azimuth \<open>2 pi u\<close> and the polar angle
  \<open>acos (2 u - 1)\<close>.
\<close>

theorem scatter_within_outer_radius:
  "(i < length frs \<and> foliage_randoms_ok (frs ! i) \<longrightarrow>
      aScatterPos (Foliage_layout frs ! i) = foliage_scatter (frs ! i)
      \<and> distance_origin (aScatterPos (Foliage_layout frs ! i))
          = 15 * root 3 (u_rScatter (frs ! i))
      \<and> distance_origin (aScatterPos (Foliage_layout frs ! i)) \<le> 15)
   \<and> (j < length ors \<and> ornament_randoms_ok (ors ! j) \<longrightarrow>
      scatter (useDualStateInstances type ors ! j) = ornament_scatter (ors ! j)
      \<and> distance_origin (scatter (useDualStateInstances type ors ! j))
          = 10 + o_rScatter (ors ! j) * 10
      \<and> 10 \<le> distance_origin (scatter (useDualStateInstances type ors ! j))
      \<and> distance_origin (scatter (useDualStateInstances type ors ! j)) \<le> 20)"
proof (intro conjI impI)
  assume a: "i < length frs \<and> foliage_randoms_ok (frs ! i)"
  then have u: "unit_interval (u_rScatter (frs ! i))" by (simp add: foliage_randoms_ok_def)
  show s: "aScatterPos (Foliage_layout frs ! i) = foliage_scatter (frs ! i)"
    using a by (simp add: Foliage_layout_nth foliage_particle_def)
  show "distance_origin (aScatterPos (Foliage_layout frs ! i)) = 15 * root 3 (u_rScatter (frs ! i))"
    using foliage_rScatter_bounds[OF u]
    by (simp add: s foliage_scatter_distance) (simp add: foliage_rScatter_def)
  show "distance_origin (aScatterPos (Foliage_layout frs ! i)) \<le> 15"
    using foliage_rScatter_bounds[OF u] by (simp add: s foliage_scatter_distance)
next
  assume a: "j < length ors \<and> ornament_randoms_ok (ors ! j)"
  then have u: "0 \<le> o_rScatter (ors ! j)" "o_rScatter (ors ! j) < 1"
    by (simp_all add: ornament_randoms_ok_def unit_interval_def)
  show s: "scatter (useDualStateInstances type ors ! j) = ornament_scatter (ors ! j)"
    using a by (simp add: useDualStateInstances_nth ornament_instance_def)
  show "distance_origin (scatter (useDualStateInstances type ors ! j)) = 10 + o_rScatter (ors ! j) * 10"
    using u by (simp add: s ornament_scatter_distance ornament_rScatter_def)
  show "10 \<le> distance_origin (scatter (useDualStateInstances type ors ! j))"
    using u by (simp add: s ornament_scatter_distance ornament_rScatter_def)
  show "distance_origin (scatter (useDualStateInstances type ors ! j)) \<le> 20"
    using u by (simp add: s ornament_scatter_distance ornament_rScatter_def)
qed

theorem scatter_within_outer_radius_witness:
  "distance_origin (aScatterPos (Foliage_layout
      [\<lparr>u_rScatter = 1 / 8, u_thetaScatter = 0, u_phiScatter = 1 / 2, u_hNorm = 0,
        u_rOffset = 0, u_random = 0\<rparr>] ! 0)) \<le> 15
   \<and> distance_origin (scatter (useDualStateInstances box
      [\<lparr>o_hNorm = 0, o_angle = 0, o_rScatter = 1 / 2, o_theta = 0, o_phi = 1 / 2, o_scale = 0,
        o_rotX = 0, o_rotY = 0\<rparr>] ! 0)) = 15"
  using scatter_within_outer_radius [of 0
      "[\<lparr>u_rScatter = 1 / 8, u_thetaScatter = 0, u_phiScatter = 1 / 2, u_hNorm = 0,
        u_rOffset = 0, u_random = 0\<rparr>]" 0
      "[\<lparr>o_hNorm = 0, o_angle = 0, o_rScatter = 1 / 2, o_theta = 0, o_phi = 1 / 2, o_scale = 0,
        o_rotX = 0, o_rotY = 0\<rparr>]" box]
  by (auto simp: foliage_randoms_ok_def ornament_randoms_ok_def unit_interval_def)

text \<open>
  C3 as stated fails for the ornaments: with the radius draw \<open>u = 0\<close> the scatter position
  is at distance 10 from the origin, while \<open>R * cbrt 0\<close> is 0 for every \<open>R\<close>, in
  particular for the outer radius 20.
\<close>

theorem ornament_scatter_not_cbrt_counterexample:
  "distance_origin (scatter (useDualStateInstances sphere
      [\<lparr>o_hNorm = 0, o_angle = 0, o_rScatter = 0, o_theta = 0, o_phi = 1 / 2, o_scale = 0,
        o_rotX = 0, o_rotY = 0\<rparr>] ! 0)) = 10
   \<and> distance_origin (scatter (useDualStateInstances sphere
      [\<lparr>o_hNorm = 0, o_angle = 0, o_rScatter = 0, o_theta = 0, o_phi = 1 / 2, o_scale = 0,
        o_rotX = 0, o_rotY = 0\<rparr>] ! 0)) \<noteq> 20 * root 3 0"
  by (simp add: useDualStateInstances_def ornament_instance_def ornament_scatter_distance
      ornament_rScatter_def)

text \<open>
  C9. For random draws in the half-open unit interval, every tree position has the vertical
  coordinate \<open>hNorm * H - H / 2\<close>, within \<open>[- H / 2, H / 2]\<close>, and a distance from the
  vertical axis within \<open>[0, R0 + jitterWidth / 2]\<close>: the foliage with \<open>H = 14\<close>,
  \<open>R0 = 5\<close> and \<open>jitterWidth = 0.5\<close>, the ornaments with \<open>H = 12\<close>, \<open>R0 = 4.5\<close>, no
  jitter and the constant outward offset \<open>0.2\<close>.
\<close>

theorem tree_positions_within_cone:
  "(i < length frs \<and> foliage_randoms_ok (frs ! i) \<longrightarrow>
      vy (aTreePos (Foliage_layout frs ! i)) = u_hNorm (frs ! i) * 14 - 14 / 2
      \<and> - (14 / 2) \<le> vy (aTreePos (Foliage_layout frs ! i))
      \<and> vy (aTreePos (Foliage_layout frs ! i)) \<le> 14 / 2
      \<and> 0 \<le> distance_axis (aTreePos (Foliage_layout frs ! i))
      \<and> distance_axis (aTreePos (Foliage_layout frs ! i)) \<le> 5 + 0.5 / 2)
   \<and> (j < length ors \<and> ornament_randoms_ok (ors ! j) \<longrightarrow>
      vy (tree (useDualStateInstances type ors ! j)) = o_hNorm (ors ! j) * 12 - 12 / 2
      \<and> - (12 / 2) \<le> vy (tree (useDualStateInstances type ors ! j))
      \<and> vy (tree (useDualStateInstances type ors ! j)) \<le> 12 / 2
      \<and> 0 \<le> distance_axis (tree (useDualStateInstances type ors ! j))
      \<and> distance_axis (tree (useDualStateInstances type ors ! j)) \<le> 4.5 + 0.2)"
proof (intro conjI impI)
  assume a: "i < length frs \<and> foliage_randoms_ok (frs ! i)"
  then have u: "0 \<le> u_hNorm (frs ! i)" "u_hNorm (frs ! i) < 1"
    "0 \<le> u_rOffset (frs ! i)" "u_rOffset (frs ! i) < 1"
    by (simp_all add: foliage_randoms_ok_def unit_interval_def)
  have s: "aTreePos (Foliage_layout frs ! i) = foliage_tree i (frs ! i)"
    using a by (simp add: Foliage_layout_nth foliage_particle_def)
  show "vy (aTreePos (Foliage_layout frs ! i)) = u_hNorm (frs ! i) * 14 - 14 / 2"
    by (simp add: s foliage_tree_height)
  show "- (14 / 2) \<le> vy (aTreePos (Foliage_layout frs ! i))"
    using u by (simp add: s foliage_tree_height)
  show "vy (aTreePos (Foliage_layout frs ! i)) \<le> 14 / 2"
    using u by (simp add: s foliage_tree_height)
  show "0 \<le> distance_axis (aTreePos (Foliage_layout frs ! i))"
    by (simp add: s foliage_tree_axis)
  have "\<bar>(1 - u_hNorm (frs ! i)) * 5 + (u_rOffset (frs ! i) - 0.5) * 0.5\<bar> \<le> 5 + 0.5 / 2"
    using u by (simp add: abs_le_iff field_simps)
  then show "distance_axis (aTreePos (Foliage_layout frs ! i)) \<le> 5 + 0.5 / 2"
    by (simp only: s foliage_tree_axis)
next
  assume a: "j < length ors \<and> ornament_randoms_ok (ors ! j)"
  then have u: "0 \<le> o_hNorm (ors ! j)" "o_hNorm (ors ! j) < 1"
    by (simp_all add: ornament_randoms_ok_def unit_interval_def)
  have s: "tree (useDualStateInstances type ors ! j) = ornament_tree (ors ! j)"
    using a by (simp add: useDualStateInstances_nth ornament_instance_def)
  show "vy (tree (useDualStateInstances type ors ! j)) = o_hNorm (ors ! j) * 12 - 12 / 2"
    by (simp add: s ornament_tree_height)
  show "- (12 / 2) \<le> vy (tree (useDualStateInstances type ors ! j))"
    using u by (simp add: s ornament_tree_height)
  show "vy (tree (useDualStateInstances type ors ! j)) \<le> 12 / 2"
    using u by (simp add: s ornament_tree_height)
  show "0 \<le> distance_axis (tree (useDualStateInstances type ors ! j))"
    by (simp add: s ornament_tree_axis)
  have "\<bar>(1 - o_hNorm (ors ! j)) * 4.5 + 0.2\<bar> \<le> 4.5 + 0.2"
    using u by (simp add: abs_le_iff field_simps)
  then show "distance_axis (tree (useDualStateInstances type ors ! j)) \<le> 4.5 + 0.2"
    by (simp only: s ornament_tree_axis)
qed

theorem tree_positions_within_cone_witness:
  "vy (aTreePos (Foliage_layout
      [\<lparr>u_rScatter = 1 / 8, u_thetaScatter = 0, u_phiScatter = 1 / 2, u_hNorm = 0,
        u_rOffset = 0, u_random = 0\<rparr>] ! 0)) = - 7
   \<and> distance_axis (aTreePos (Foliage_layout
      [\<lparr>u_rScatter = 1 / 8, u_thetaScatter = 0, u_phiScatter = 1 / 2, u_hNorm = 0,
        u_rOffset = 0, u_random = 0\<rparr>] ! 0)) \<le> 21 / 4
   \<and> vy (tree (useDualStateInstances box
      [\<lparr>o_hNorm = 1 / 2, o_angle = 0, o_rScatter = 1 / 2, o_theta = 0, o_phi = 1 / 2,
        o_scale = 0, o_rotX = 0, o_rotY = 0\<rparr>] ! 0)) = 0
   \<and> distance_axis (tree (useDualStateInstances box
      [\<lparr>o_hNorm = 1 / 2, o_angle = 0, o_rScatter = 1 / 2, o_theta = 0, o_phi = 1 / 2,
        o_scale = 0, o_rotX = 0, o_rotY = 0\<rparr>] ! 0)) \<le> 47 / 10"
  using tree_positions_within_cone [of 0
      "[\<lparr>u_rScatter = 1 / 8, u_thetaScatter = 0, u_phiScatter = 1 / 2, u_hNorm = 0,
        u_rOffset = 0, u_random = 0\<rparr>]" 0
      "[\<lparr>o_hNorm = 1 / 2, o_angle = 0, o_rScatter = 1 / 2, o_theta = 0, o_phi = 1 / 2,
        o_scale = 0, o_rotX = 0, o_rotY = 0\<rparr>]" box]
  by (simp add: foliage_randoms_ok_def ornament_randoms_ok_def unit_interval_def)

subsection \<open>The foliage shader\<close>

text \<open>
  C4 (as amended). The shader's output position is the eased mix of the scatter and tree
  positions, plus, on the vertical coordinate, the breathing offset
  \<open>0.05 * sin (2 t + seed * 10)\<close> and the turbulence
  \<open>0.1 * sin (t + scatterX) * (1 - eased)\<close>, plus, on the horizontal x coordinate, the
  drift \<open>0.02 * cos (1.5 t + seed)\<close>; z is the mix alone. At progress 1 the turbulence
  has vanished.
\<close>

theorem foliage_secondary_motion:
  "vertexShader u a =
     (vx (mix (aScatterPos a) (aTreePos a) (easeInOutCubic (uProgress u)))
        + 0.02 * cos (1.5 * uTime u + aRandom a),
      vy (mix (aScatterPos a) (aTreePos a) (easeInOutCubic (uProgress u)))
        + 0.05 * sin (2 * uTime u + aRandom a * 10)
        + 0.1 * sin (uTime u + vx (aScatterPos a)) * (1 - easeInOutCubic (uProgress u)),
      vz (mix (aScatterPos a) (aTreePos a) (easeInOutCubic (uProgress u))))
   \<and> vertexShader (u\<lparr>uProgress := 1\<rparr>) a =
     (vx (aTreePos a) + 0.02 * cos (1.5 * uTime u + aRandom a),
      vy (aTreePos a) + 0.05 * sin (2 * uTime u + aRandom a * 10),
      vz (aTreePos a))"
  by (simp add: vertexShader_def Let_def easeInOutCubic_values mix_one mult.commute)

text \<open>
  C4 as stated fails: at time 0 and progress 0, for a particle with seed 0 scattered at
  \<open>(pi / 2, 0, 0)\<close>, the turbulence is \<open>0.1\<close>; the vertical coordinate is not the mix
  plus the breathing, and neither horizontal coordinate carries the turbulence.
\<close>

theorem turbulence_is_vertical_counterexample:
  "vy (vertexShader \<lparr>uTime = 0, uProgress = 0\<rparr>
         \<lparr>aScatterPos = (pi / 2, 0, 0), aTreePos = (0, 0, 0), aRandom = 0\<rparr>)
     \<noteq> vy (mix (pi / 2, 0, 0) (0, 0, 0) (easeInOutCubic 0)) + 0.05 * sin (2 * 0 + 0 * 10)
   \<and> vx (vertexShader \<lparr>uTime = 0, uProgress = 0\<rparr>
         \<lparr>aScatterPos = (pi / 2, 0, 0), aTreePos = (0, 0, 0), aRandom = 0\<rparr>)
     = vx (mix (pi / 2, 0, 0) (0, 0, 0) (easeInOutCubic 0)) + 0.02 * cos (1.5 * 0 + 0)
   \<and> vz (vertexShader \<lparr>uTime = 0, uProgress = 0\<rparr>
         \<lparr>aScatterPos = (pi / 2, 0, 0), aTreePos = (0, 0, 0), aRandom = 0\<rparr>)
     = vz (mix (pi / 2, 0, 0) (0, 0, 0) (easeInOutCubic 0))
   \<and> 0.1 * sin (0 + pi / 2) * (1 - easeInOutCubic 0) = 0.1"
  by (simp add: vertexShader_def Let_def easeInOutCubic_values mix_def vx_def vy_def vz_def)

end
